theory Spec2Isabelle
  imports Main
begin

section \<open>The Validator filter of pkg/filters/validator/validator.go\<close>

text \<open>
  The filter composes up to five scheme validators (headers, JWT, signature, OAuth2,
  basic auth) into one request gate. The scheme validators, their specs, the request and
  the supervisor live in other packages: their types are type variables here. A scheme
  validator is handed a reference into the live request, so it is taken by what its
  \<open>Validate\<close> (for the signer, \<open>Verify\<close>) method returns for its argument and by how it
  leaves that argument: \<open>None\<close> for a nil error, \<open>Some reason\<close> for an error whose
  \<open>Error()\<close> text is \<open>reason\<close>, paired with the argument after the call.
\<close>

subsection \<open>Data\<close>

type_synonym error = string

text \<open>The two accessors of the request that \<open>handle\<close> uses: \<open>req.Header()\<close> and \<open>req.Std()\<close>.\<close>

record ('hdr, 'std) HTTPRequest =
  Header :: 'hdr
  Std :: 'std

text \<open>
  What \<open>handle\<close> touches of the \<open>context.HTTPContext\<close>: the request, the status code of
  the response and the tags, in the order they were added.
\<close>

record ('hdr, 'std) HTTPContext =
  Request :: "('hdr, 'std) HTTPRequest"
  StatusCode :: int
  Tags :: "string list"

text \<open>
  \<open>filters.BaseSpec\<close> is declared in package filters. The filter reads two things from
  it, \<open>Name()\<close> and \<open>Super()\<close>; whatever else it holds is \<open>Other\<close>. It is embedded inline
  in \<open>Spec\<close>, so all of it is part of every comparison of two \<open>Spec\<close> values.
\<close>

record ('sup, 'more) filters_BaseSpec =
  Name :: string
  Super :: "'sup option"
  Other :: 'more

record ('sup, 'more, 'hs, 'js, 'ss, 'os, 'bs) Spec =
  BaseSpec :: "('sup, 'more) filters_BaseSpec"
  Headers :: "'hs option"
  JWT :: "'js option"
  Signature :: "'ss option"
  OAuth2 :: "'os option"
  BasicAuth :: "'bs option"

text \<open>
  A validator that is handed \<open>'a\<close>: its verdict, and \<open>'a\<close> as the call leaves it. The
  headers validator is handed \<open>req.Header()\<close>, the signer \<open>req.Std()\<close>, the other three
  the request itself.
\<close>

type_synonym 'a validate = "'a \<Rightarrow> error option \<times> 'a"

record ('sup, 'more, 'hs, 'js, 'ss, 'os, 'bs, 'hdr, 'std) Validator =
  spec :: "('sup, 'more, 'hs, 'js, 'ss, 'os, 'bs) Spec option"
  headers :: "'hdr validate option"
  jwt :: "('hdr, 'std) HTTPRequest validate option"
  signer :: "'std validate option"
  oauth2 :: "('hdr, 'std) HTTPRequest validate option"
  basicAuth :: "('hdr, 'std) HTTPRequest validate option"

text \<open>
  The calls the filter makes into the scheme validators' packages, recorded in the order
  they are made: a constructor, a \<open>Validate\<close>/\<open>Verify\<close>, or a \<open>Close\<close> of one scheme.
\<close>

datatype scheme = SHeaders | SJWT | SSignature | SOAuth2 | SBasicAuth

datatype call = CallNew scheme | CallValidate scheme | CallClose scheme

text \<open>
  The constructors of the scheme validators, as \<open>reload\<close> calls them. Each returns a
  pointer, which may be nil: \<open>None\<close>.
\<close>

record ('sup, 'hs, 'js, 'ss, 'os, 'bs, 'hdr, 'std) Factories =
  NewValidator :: "'hs \<Rightarrow> 'hdr validate option"
  NewJWTValidator :: "'js \<Rightarrow> ('hdr, 'std) HTTPRequest validate option"
  CreateFromSpec :: "'ss \<Rightarrow> 'std validate option"
  NewOAuth2Validator :: "'os \<Rightarrow> ('hdr, 'std) HTTPRequest validate option"
  NewBasicAuthValidator :: "'bs \<Rightarrow> 'sup option \<Rightarrow> ('hdr, 'std) HTTPRequest validate option"

subsection \<open>Constants\<close>

definition resultInvalid :: string where
  "resultInvalid = ''invalid''"

definition StatusBadRequest :: int where
  "StatusBadRequest = 400"

definition StatusUnauthorized :: int where
  "StatusUnauthorized = 401"

text \<open>
  Modelled from the spec: \<open>stringtool.Cat\<close> is declared in package stringtool; the tag is
  the prefix followed by the underlying reason, so \<open>Cat\<close> is concatenation.
\<close>

definition Cat :: "string \<Rightarrow> string \<Rightarrow> string" where
  "Cat a b = a @ b"

subsection \<open>Spec.Validate\<close>

text \<open>
  The zero value \<open>Spec{}\<close>: every field, also every field of the embedded \<open>BaseSpec\<close>, is
  zero. \<open>z\<close> is the zero value of the fields of \<open>BaseSpec\<close> that this file does not read.
\<close>

definition Spec_zero :: "'more \<Rightarrow> ('sup, 'more, 'hs, 'js, 'ss, 'os, 'bs) Spec" where
  "Spec_zero z = \<lparr>BaseSpec = \<lparr>Name = [], Super = None, Other = z\<rparr>, Headers = None,
     JWT = None, Signature = None, OAuth2 = None, BasicAuth = None\<rparr>"

definition Validate :: "'more \<Rightarrow> ('sup, 'more, 'hs, 'js, 'ss, 'os, 'bs) Spec \<Rightarrow> error option" where
  "Validate z s =
     (if s = Spec_zero z then Some ''none of the validations are defined'' else None)"

subsection \<open>CreateInstance, Init, reload, Close, Inherit\<close>

definition CreateInstance :: "('sup, 'more, 'hs, 'js, 'ss, 'os, 'bs, 'hdr, 'std) Validator" where
  "CreateInstance = \<lparr>spec = None, headers = None, jwt = None, signer = None,
     oauth2 = None, basicAuth = None\<rparr>"

text \<open>
  One \<open>if v.spec.X != nil { v.x = New(v.spec.X) }\<close> of \<open>reload\<close>: the field keeps its
  value when the scheme is absent from the spec, and takes what the constructor returns,
  nil or not, when it is there.
\<close>

fun construct :: "scheme \<Rightarrow> 'a option \<Rightarrow> ('a \<Rightarrow> 'b option) \<Rightarrow> 'b option \<Rightarrow> 'b option \<times> call list" where
  "construct k None new old = (old, [])"
| "construct k (Some x) new old = (new x, [CallNew k])"

text \<open>\<open>reload\<close> dereferences \<open>v.spec\<close>: on a nil spec it panics, which is \<open>None\<close> here.\<close>

definition reload ::
  "('sup, 'hs, 'js, 'ss, 'os, 'bs, 'hdr, 'std) Factories \<Rightarrow>
   ('sup, 'more, 'hs, 'js, 'ss, 'os, 'bs, 'hdr, 'std) Validator \<Rightarrow>
   (('sup, 'more, 'hs, 'js, 'ss, 'os, 'bs, 'hdr, 'std) Validator \<times> call list) option" where
  "reload F v =
     (case spec v of
        None \<Rightarrow> None
      | Some s \<Rightarrow>
          (let (h, c1) = construct SHeaders (Headers s) (NewValidator F) (headers v);
               (j, c2) = construct SJWT (JWT s) (NewJWTValidator F) (jwt v);
               (g, c3) = construct SSignature (Signature s) (CreateFromSpec F) (signer v);
               (a, c4) = construct SOAuth2 (OAuth2 s) (NewOAuth2Validator F) (oauth2 v);
               (b, c5) = construct SBasicAuth (BasicAuth s)
                           (\<lambda>x. NewBasicAuthValidator F x (Super (BaseSpec s))) (basicAuth v)
           in Some (v\<lparr>headers := h, jwt := j, signer := g, oauth2 := a, basicAuth := b\<rparr>,
                    c1 @ c2 @ c3 @ c4 @ c5)))"

definition Init ::
  "('sup, 'hs, 'js, 'ss, 'os, 'bs, 'hdr, 'std) Factories \<Rightarrow>
   ('sup, 'more, 'hs, 'js, 'ss, 'os, 'bs, 'hdr, 'std) Validator \<Rightarrow>
   ('sup, 'more, 'hs, 'js, 'ss, 'os, 'bs) Spec \<Rightarrow>
   (('sup, 'more, 'hs, 'js, 'ss, 'os, 'bs, 'hdr, 'std) Validator \<times> call list) option" where
  "Init F v s = reload F (v\<lparr>spec := Some s\<rparr>)"

text \<open>
  \<open>Close\<close> assigns no field of the Validator; the one thing it does is the call of the
  basic-auth validator's \<open>Close\<close>, when there is one. What that call does inside the
  basic-auth validator is in another file: here it is the recorded call, and the field
  goes on referring to the same validator.
\<close>

definition Close ::
  "('sup, 'more, 'hs, 'js, 'ss, 'os, 'bs, 'hdr, 'std) Validator \<Rightarrow>
   ('sup, 'more, 'hs, 'js, 'ss, 'os, 'bs, 'hdr, 'std) Validator \<times> call list" where
  "Close v = (if basicAuth v \<noteq> None then (v, [CallClose SBasicAuth]) else (v, []))"

text \<open>
  \<open>Inherit\<close>: the previous generation of a Validator filter is a Validator. The result is
  the new generation, the previous one, and the calls made, in order.
\<close>

definition Inherit ::
  "('sup, 'hs, 'js, 'ss, 'os, 'bs, 'hdr, 'std) Factories \<Rightarrow>
   ('sup, 'more, 'hs, 'js, 'ss, 'os, 'bs, 'hdr, 'std) Validator \<Rightarrow>
   ('sup, 'more, 'hs, 'js, 'ss, 'os, 'bs) Spec \<Rightarrow>
   ('sup, 'more, 'hs, 'js, 'ss, 'os, 'bs, 'hdr, 'std) Validator \<Rightarrow>
   (('sup, 'more, 'hs, 'js, 'ss, 'os, 'bs, 'hdr, 'std) Validator \<times>
    ('sup, 'more, 'hs, 'js, 'ss, 'os, 'bs, 'hdr, 'std) Validator \<times> call list) option" where
  "Inherit F v s previousGeneration =
     (let (p, c1) = Close previousGeneration
      in case Init F v s of
           None \<Rightarrow> None
         | Some (v', c2) \<Rightarrow> Some (v', p, c1 @ c2))"

subsection \<open>handle\<close>

definition prepareErrorResponse ::
  "int \<Rightarrow> string \<Rightarrow> error \<Rightarrow> ('hdr, 'std) HTTPContext \<Rightarrow> ('hdr, 'std) HTTPContext" where
  "prepareErrorResponse status tagPrefix err ctx =
     (let ctx1 = ctx\<lparr>StatusCode := status\<rparr>
      in ctx1\<lparr>Tags := Tags ctx1 @ [Cat tagPrefix err]\<rparr>)"

text \<open>
  One \<open>if v.x != nil { if err := v.x.Validate(arg); err != nil { ... } }\<close>: the error, if
  the scheme is there and rejects; the argument as the call leaves it; and the call made,
  if the scheme is there.
\<close>

fun invoke :: "scheme \<Rightarrow> 'a validate option \<Rightarrow> 'a \<Rightarrow> error option \<times> 'a \<times> call list" where
  "invoke k None x = (None, x, [])"
| "invoke k (Some f) x = (fst (f x), snd (f x), [CallValidate k])"

text \<open>
  The result string, the context as \<open>handle\<close> leaves it, and the calls made. \<open>req\<close> is a
  reference to the request of the context: what a validator writes to it, or to its
  header or its standard request, is in the context afterwards.
\<close>

definition handle ::
  "('sup, 'more, 'hs, 'js, 'ss, 'os, 'bs, 'hdr, 'std) Validator \<Rightarrow> ('hdr, 'std) HTTPContext \<Rightarrow>
   string \<times> ('hdr, 'std) HTTPContext \<times> call list" where
  "handle v ctx =
    (let req = Request ctx in
     case invoke SHeaders (headers v) (Header req) of
       (Some err, h, c1) \<Rightarrow>
         (resultInvalid,
          prepareErrorResponse StatusBadRequest ''header validator: '' err
            (ctx\<lparr>Request := req\<lparr>Header := h\<rparr>\<rparr>),
          c1)
     | (None, h, c1) \<Rightarrow>
     (case invoke SJWT (jwt v) (req\<lparr>Header := h\<rparr>) of
       (Some err, req2, c2) \<Rightarrow>
         (resultInvalid,
          prepareErrorResponse StatusUnauthorized ''JWT validator: '' err (ctx\<lparr>Request := req2\<rparr>),
          c1 @ c2)
     | (None, req2, c2) \<Rightarrow>
     (case invoke SSignature (signer v) (Std req2) of
       (Some err, s, c3) \<Rightarrow>
         (resultInvalid,
          prepareErrorResponse StatusUnauthorized ''signature validator: '' err
            (ctx\<lparr>Request := req2\<lparr>Std := s\<rparr>\<rparr>),
          c1 @ c2 @ c3)
     | (None, s, c3) \<Rightarrow>
     (case invoke SOAuth2 (oauth2 v) (req2\<lparr>Std := s\<rparr>) of
       (Some err, req4, c4) \<Rightarrow>
         (resultInvalid,
          prepareErrorResponse StatusUnauthorized ''oauth2 validator: '' err
            (ctx\<lparr>Request := req4\<rparr>),
          c1 @ c2 @ c3 @ c4)
     | (None, req4, c4) \<Rightarrow>
     (case invoke SBasicAuth (basicAuth v) req4 of
       (Some err, req5, c5) \<Rightarrow>
         (resultInvalid,
          prepareErrorResponse StatusUnauthorized ''http basic validator: '' err
            (ctx\<lparr>Request := req5\<rparr>),
          c1 @ c2 @ c3 @ c4 @ c5)
     | (None, req5, c5) \<Rightarrow> ([], ctx\<lparr>Request := req5\<rparr>, c1 @ c2 @ c3 @ c4 @ c5))))))"

subsection \<open>The evaluation as the specification words it\<close>

text \<open>
  A validator of the header, or of the standard request, as a validator of the request
  it is a part of.
\<close>

definition on_Header :: "'hdr validate \<Rightarrow> ('hdr, 'std) HTTPRequest validate" where
  "on_Header f r = (fst (f (Header r)), r\<lparr>Header := snd (f (Header r))\<rparr>)"

definition on_Std :: "'std validate \<Rightarrow> ('hdr, 'std) HTTPRequest validate" where
  "on_Std f r = (fst (f (Std r)), r\<lparr>Std := snd (f (Std r))\<rparr>)"

fun present :: "scheme \<Rightarrow> 'f option \<Rightarrow> (scheme \<times> 'f) list" where
  "present k None = []"
| "present k (Some f) = [(k, f)]"

text \<open>
  The schemes a generation holds, in the precedence order Headers, JWT, Signature, OAuth2,
  BasicAuth, absent schemes skipped.
\<close>

definition schemes ::
  "('sup, 'more, 'hs, 'js, 'ss, 'os, 'bs, 'hdr, 'std) Validator \<Rightarrow>
   (scheme \<times> ('hdr, 'std) HTTPRequest validate) list" where
  "schemes v =
     present SHeaders (map_option on_Header (headers v)) @ present SJWT (jwt v) @
     present SSignature (map_option on_Std (signer v)) @ present SOAuth2 (oauth2 v) @
     present SBasicAuth (basicAuth v)"

text \<open>
  Each scheme of the list with its verdict on the request as the schemes before it leave
  it.
\<close>

fun verdicts :: "(scheme \<times> 'r validate) list \<Rightarrow> 'r \<Rightarrow> (scheme \<times> error option) list" where
  "verdicts [] r = []"
| "verdicts ((k, f) # fs) r = (k, fst (f r)) # verdicts fs (snd (f r))"

definition precedence ::
  "('sup, 'more, 'hs, 'js, 'ss, 'os, 'bs, 'hdr, 'std) Validator \<Rightarrow> ('hdr, 'std) HTTPRequest \<Rightarrow>
   (scheme \<times> error option) list" where
  "precedence v req = verdicts (schemes v) req"

text \<open>
  The request as an evaluation that stops at the first rejection leaves it: the schemes
  up to the first that rejects, that one included, have been at it.
\<close>

fun request_after :: "(scheme \<times> 'r validate) list \<Rightarrow> 'r \<Rightarrow> 'r" where
  "request_after [] r = r"
| "request_after ((k, f) # fs) r =
     (case fst (f r) of None \<Rightarrow> request_after fs (snd (f r)) | Some e \<Rightarrow> snd (f r))"

fun configured ::
  "('sup, 'more, 'hs, 'js, 'ss, 'os, 'bs, 'hdr, 'std) Validator \<Rightarrow> scheme \<Rightarrow> bool" where
  "configured v SHeaders = (headers v \<noteq> None)"
| "configured v SJWT = (jwt v \<noteq> None)"
| "configured v SSignature = (signer v \<noteq> None)"
| "configured v SOAuth2 = (oauth2 v \<noteq> None)"
| "configured v SBasicAuth = (basicAuth v \<noteq> None)"

fun enabled :: "('sup, 'more, 'hs, 'js, 'ss, 'os, 'bs) Spec \<Rightarrow> scheme \<Rightarrow> bool" where
  "enabled s SHeaders = (Headers s \<noteq> None)"
| "enabled s SJWT = (JWT s \<noteq> None)"
| "enabled s SSignature = (Signature s \<noteq> None)"
| "enabled s SOAuth2 = (OAuth2 s \<noteq> None)"
| "enabled s SBasicAuth = (BasicAuth s \<noteq> None)"

text \<open>The status class of a scheme's rejection, and the name its tag starts with.\<close>

fun status_of :: "scheme \<Rightarrow> int" where
  "status_of SHeaders = 400"
| "status_of SJWT = 401"
| "status_of SSignature = 401"
| "status_of SOAuth2 = 401"
| "status_of SBasicAuth = 401"

fun label :: "scheme \<Rightarrow> string" where
  "label SHeaders = ''header''"
| "label SJWT = ''JWT''"
| "label SSignature = ''signature''"
| "label SOAuth2 = ''oauth2''"
| "label SBasicAuth = ''http basic''"

text \<open>The first scheme of the list that rejects, with its reason.\<close>

fun rejection :: "(scheme \<times> error option) list \<Rightarrow> (scheme \<times> error) option" where
  "rejection [] = None"
| "rejection ((k, None) # ps) = rejection ps"
| "rejection ((k, Some e) # ps) = Some (k, e)"

text \<open>The \<open>Validate\<close> calls of an evaluation that stops at the first rejection.\<close>

fun invoked :: "(scheme \<times> error option) list \<Rightarrow> call list" where
  "invoked [] = []"
| "invoked ((k, None) # ps) = CallValidate k # invoked ps"
| "invoked ((k, Some e) # ps) = [CallValidate k]"

text \<open>
  \<open>Evaluate\<close> of the specification: \<open>Pass\<close> sets no status and adds no tag; a rejection
  sets the scheme's status and adds the tag \<open><scheme> validator: <reason>\<close>. The request
  of the context is as the schemes that were called leave it.
\<close>

definition Evaluate_spec ::
  "(scheme \<times> ('hdr, 'std) HTTPRequest validate) list \<Rightarrow> ('hdr, 'std) HTTPContext \<Rightarrow>
   string \<times> ('hdr, 'std) HTTPContext \<times> call list" where
  "Evaluate_spec fs ctx =
     (case rejection (verdicts fs (Request ctx)) of
        None \<Rightarrow>
          ([], ctx\<lparr>Request := request_after fs (Request ctx)\<rparr>,
           invoked (verdicts fs (Request ctx)))
      | Some (k, e) \<Rightarrow>
          (''invalid'',
           ctx\<lparr>Request := request_after fs (Request ctx), StatusCode := status_of k,
               Tags := Tags ctx @ [label k @ '' validator: '' @ e]\<rparr>,
           invoked (verdicts fs (Request ctx))))"

subsection \<open>Example gates, requests and specs\<close>

text \<open>
  Validators that accept or reject and leave their argument alone, and one that accepts
  and sets a header of the request.
\<close>

definition accept :: "'a validate" where
  "accept x = (None, x)"

definition reject :: "error \<Rightarrow> 'a validate" where
  "reject e x = (Some e, x)"

definition accept_and_set ::
  "string \<Rightarrow> (string list, string) HTTPRequest validate" where
  "accept_and_set n r = (None, r\<lparr>Header := n # Header r\<rparr>)"

definition gate ::
  "string list validate option \<Rightarrow>
   (string list, string) HTTPRequest validate option \<Rightarrow>
   string validate option \<Rightarrow>
   (string list, string) HTTPRequest validate option \<Rightarrow>
   (string list, string) HTTPRequest validate option \<Rightarrow>
   (unit, unit, unit, unit, unit, unit, unit, string list, string) Validator" where
  "gate h j g a b = \<lparr>spec = None, headers = h, jwt = j, signer = g, oauth2 = a, basicAuth = b\<rparr>"

definition ctx0 :: "(string list, string) HTTPContext" where
  "ctx0 = \<lparr>Request = \<lparr>Header = [''Accept''], Std = ''GET /''\<rparr>, StatusCode = 200, Tags = []\<rparr>"

definition factories0 :: "(unit, unit, unit, unit, unit, unit, string list, string) Factories" where
  "factories0 = \<lparr>NewValidator = (\<lambda>_. Some accept), NewJWTValidator = (\<lambda>_. Some accept),
     CreateFromSpec = (\<lambda>_. Some accept), NewOAuth2Validator = (\<lambda>_. Some accept),
     NewBasicAuthValidator = (\<lambda>_ _. Some accept)\<rparr>"

text \<open>A spec that has a name, a headers section or none, a basicAuth section or none.\<close>

definition spec_named ::
  "string \<Rightarrow> unit option \<Rightarrow> unit option \<Rightarrow> (unit, unit, unit, unit, unit, unit, unit) Spec" where
  "spec_named n h b = \<lparr>BaseSpec = \<lparr>Name = n, Super = None, Other = ()\<rparr>, Headers = h,
     JWT = None, Signature = None, OAuth2 = None, BasicAuth = b\<rparr>"

section \<open>Properties\<close>

subsection \<open>handle is the evaluation of the specification\<close>

lemma handle_Evaluate_spec: "handle v ctx = Evaluate_spec (schemes v) ctx"
  by (cases "headers v"; cases "jwt v"; cases "signer v"; cases "oauth2 v"; cases "basicAuth v")
     (auto simp: handle_def Evaluate_spec_def schemes_def on_Header_def on_Std_def
        prepareErrorResponse_def Cat_def resultInvalid_def StatusBadRequest_def
        StatusUnauthorized_def Let_def
        split: option.splits)

lemma invoked_takeWhile:
  "invoked ps = map (\<lambda>p. CallValidate (fst p))
     (takeWhile (\<lambda>p. snd p = None) ps @ take 1 (dropWhile (\<lambda>p. snd p = None) ps))"
  by (induction ps rule: invoked.induct) simp_all

lemma rejection_None: "(rejection ps = None) = list_all (\<lambda>p. snd p = None) ps"
  by (induction ps rule: rejection.induct) simp_all

lemma rejection_dropWhile:
  "(rejection ps = None) = (dropWhile (\<lambda>p. snd p = None) ps = [])"
  by (induction ps rule: rejection.induct) simp_all

lemma map_fst_verdicts: "map fst (verdicts fs r) = map fst fs"
  by (induction fs arbitrary: r) auto

lemma precedence_order:
  "map fst (precedence v req) =
     filter (configured v) [SHeaders, SJWT, SSignature, SOAuth2, SBasicAuth]"
  by (cases "headers v"; cases "jwt v"; cases "signer v"; cases "oauth2 v"; cases "basicAuth v")
     (simp_all add: precedence_def map_fst_verdicts schemes_def)

lemma request_after_unwritten:
  "list_all (\<lambda>p. \<forall>r. snd (snd p r) = r) fs \<Longrightarrow> request_after fs r = r"
  by (induction fs arbitrary: r) (auto split: option.splits)

subsection \<open>Evaluation: order, short circuit, outcome\<close>

text \<open>
  C1. For every request, \<open>handle\<close> invokes the configured scheme validators in the fixed
  order Headers, JWT, Signature, OAuth2, BasicAuth, skipping absent schemes, and stops at
  the first rejection: the calls made are the \<open>Validate\<close> calls of the schemes that accept
  up to the first one that rejects, that one included and none after it, and the result is
  \<open>invalid\<close> exactly when some configured scheme in that order rejects.
\<close>

theorem handle_precedence_short_circuit:
  "map fst (precedence v (Request ctx)) =
     filter (configured v) [SHeaders, SJWT, SSignature, SOAuth2, SBasicAuth] \<and>
   snd (snd (handle v ctx)) =
     map (\<lambda>p. CallValidate (fst p))
       (takeWhile (\<lambda>p. snd p = None) (precedence v (Request ctx)) @
        take 1 (dropWhile (\<lambda>p. snd p = None) (precedence v (Request ctx)))) \<and>
   (fst (handle v ctx) = resultInvalid) =
     (dropWhile (\<lambda>p. snd p = None) (precedence v (Request ctx)) \<noteq> [])"
  using rejection_dropWhile [of "precedence v (Request ctx)"]
  by (auto simp: handle_Evaluate_spec Evaluate_spec_def precedence_order invoked_takeWhile
      resultInvalid_def precedence_def [symmetric] split: option.splits)

text \<open>
  C3. For every request, when scheme \<open>k\<close> is the one that rejects, \<open>handle\<close> returns
  \<open>invalid\<close> and the status code of the response is 400 for Headers and 401 for JWT,
  Signature, OAuth2 and BasicAuth.
\<close>

theorem handle_rejection_status:
  "rejection (precedence v (Request ctx)) = Some (k, e) \<Longrightarrow>
   fst (handle v ctx) = resultInvalid \<and>
   StatusCode (fst (snd (handle v ctx))) = (if k = SHeaders then 400 else 401)"
  by (cases k)
     (simp_all add: handle_Evaluate_spec Evaluate_spec_def resultInvalid_def
        precedence_def [symmetric])

text \<open>
  The hypothesis of C3 at five gates, one per rejecting scheme, on a request whose earlier
  schemes accept and whose later schemes would reject too.
\<close>

theorem handle_rejection_status_witness:
  "rejection (precedence (gate (Some (reject ''no key'')) (Some (reject ''x'')) None None None)
     (Request ctx0)) = Some (SHeaders, ''no key'') \<and>
   StatusCode (fst (snd (handle
     (gate (Some (reject ''no key'')) (Some (reject ''x'')) None None None) ctx0))) = 400 \<and>
   rejection (precedence (gate (Some accept) (Some (reject ''expired'')) None None
     (Some (reject ''x''))) (Request ctx0)) = Some (SJWT, ''expired'') \<and>
   StatusCode (fst (snd (handle
     (gate (Some accept) (Some (reject ''expired'')) None None (Some (reject ''x''))) ctx0))) = 401 \<and>
   rejection (precedence (gate None None (Some (reject ''bad mac'')) (Some (reject ''x'')) None)
     (Request ctx0)) = Some (SSignature, ''bad mac'') \<and>
   StatusCode (fst (snd (handle
     (gate None None (Some (reject ''bad mac'')) (Some (reject ''x'')) None) ctx0))) = 401 \<and>
   rejection (precedence (gate (Some accept) None None (Some (reject ''inactive'')) None)
     (Request ctx0)) = Some (SOAuth2, ''inactive'') \<and>
   StatusCode (fst (snd (handle
     (gate (Some accept) None None (Some (reject ''inactive'')) None) ctx0))) = 401 \<and>
   rejection (precedence (gate None (Some accept) None None (Some (reject ''unknown user'')))
     (Request ctx0)) = Some (SBasicAuth, ''unknown user'') \<and>
   StatusCode (fst (snd (handle
     (gate None (Some accept) None None (Some (reject ''unknown user''))) ctx0))) = 401"
proof -
  have h1: "rejection (precedence (gate (Some (reject ''no key'')) (Some (reject ''x'')) None None
      None) (Request ctx0)) = Some (SHeaders, ''no key'')"
    by (simp add: gate_def precedence_def schemes_def on_Header_def on_Std_def
        accept_def reject_def)
  have h2: "rejection (precedence (gate (Some accept) (Some (reject ''expired'')) None None
      (Some (reject ''x''))) (Request ctx0)) = Some (SJWT, ''expired'')"
    by (simp add: gate_def precedence_def schemes_def on_Header_def on_Std_def
        accept_def reject_def)
  have h3: "rejection (precedence (gate None None (Some (reject ''bad mac''))
      (Some (reject ''x'')) None) (Request ctx0)) = Some (SSignature, ''bad mac'')"
    by (simp add: gate_def precedence_def schemes_def on_Header_def on_Std_def
        accept_def reject_def)
  have h4: "rejection (precedence (gate (Some accept) None None (Some (reject ''inactive'')) None)
      (Request ctx0)) = Some (SOAuth2, ''inactive'')"
    by (simp add: gate_def precedence_def schemes_def on_Header_def on_Std_def
        accept_def reject_def)
  have h5: "rejection (precedence (gate None (Some accept) None None
      (Some (reject ''unknown user''))) (Request ctx0)) = Some (SBasicAuth, ''unknown user'')"
    by (simp add: gate_def precedence_def schemes_def on_Header_def on_Std_def
        accept_def reject_def)
  show ?thesis
    using h1 h2 h3 h4 h5
      handle_rejection_status [OF h1] handle_rejection_status [OF h2]
      handle_rejection_status [OF h3] handle_rejection_status [OF h4]
      handle_rejection_status [OF h5]
    by simp
qed


text \<open>
  C6. For every request, when scheme \<open>k\<close> rejects with reason \<open>e\<close>, \<open>handle\<close> adds one tag
  to the context, after the tags already there: the scheme's name as the code spells it
  (header, JWT, signature, oauth2, http basic), then \<open> validator: \<close>, then \<open>e\<close>.
\<close>

theorem handle_rejection_tag:
  "rejection (precedence v (Request ctx)) = Some (k, e) \<Longrightarrow>
   Tags (fst (snd (handle v ctx))) = Tags ctx @ [label k @ '' validator: '' @ e]"
  by (simp add: handle_Evaluate_spec Evaluate_spec_def precedence_def [symmetric])

text \<open>The hypothesis of C6 at five gates, one per rejecting scheme, with the tag written out.\<close>

theorem handle_rejection_tag_witness:
  "rejection (precedence (gate (Some (reject ''no key'')) None None None None)
     (Request ctx0)) = Some (SHeaders, ''no key'') \<and>
   Tags (fst (snd (handle (gate (Some (reject ''no key'')) None None None None) ctx0))) =
     [''header validator: no key''] \<and>
   rejection (precedence (gate None (Some (reject ''expired'')) None None None)
     (Request ctx0)) = Some (SJWT, ''expired'') \<and>
   Tags (fst (snd (handle (gate None (Some (reject ''expired'')) None None None) ctx0))) =
     [''JWT validator: expired''] \<and>
   rejection (precedence (gate None None (Some (reject ''bad mac'')) None None)
     (Request ctx0)) = Some (SSignature, ''bad mac'') \<and>
   Tags (fst (snd (handle (gate None None (Some (reject ''bad mac'')) None None) ctx0))) =
     [''signature validator: bad mac''] \<and>
   rejection (precedence (gate None None None (Some (reject ''inactive'')) None)
     (Request ctx0)) = Some (SOAuth2, ''inactive'') \<and>
   Tags (fst (snd (handle (gate None None None (Some (reject ''inactive'')) None) ctx0))) =
     [''oauth2 validator: inactive''] \<and>
   rejection (precedence (gate None None None None (Some (reject ''unknown user'')))
     (Request ctx0)) = Some (SBasicAuth, ''unknown user'') \<and>
   Tags (fst (snd (handle (gate None None None None (Some (reject ''unknown user''))) ctx0))) =
     [''http basic validator: unknown user'']"
proof -
  have h1: "rejection (precedence (gate (Some (reject ''no key'')) None None None None)
      (Request ctx0)) = Some (SHeaders, ''no key'')"
    by (simp add: gate_def precedence_def schemes_def on_Header_def on_Std_def
        accept_def reject_def)
  have h2: "rejection (precedence (gate None (Some (reject ''expired'')) None None None)
      (Request ctx0)) = Some (SJWT, ''expired'')"
    by (simp add: gate_def precedence_def schemes_def on_Header_def on_Std_def
        accept_def reject_def)
  have h3: "rejection (precedence (gate None None (Some (reject ''bad mac'')) None None)
      (Request ctx0)) = Some (SSignature, ''bad mac'')"
    by (simp add: gate_def precedence_def schemes_def on_Header_def on_Std_def
        accept_def reject_def)
  have h4: "rejection (precedence (gate None None None (Some (reject ''inactive'')) None)
      (Request ctx0)) = Some (SOAuth2, ''inactive'')"
    by (simp add: gate_def precedence_def schemes_def on_Header_def on_Std_def
        accept_def reject_def)
  have h5: "rejection (precedence (gate None None None None (Some (reject ''unknown user'')))
      (Request ctx0)) = Some (SBasicAuth, ''unknown user'')"
    by (simp add: gate_def precedence_def schemes_def on_Header_def on_Std_def
        accept_def reject_def)
  have t: "Tags ctx0 = []"
    by (simp add: ctx0_def)
  show ?thesis
    using h1 h2 h3 h4 h5 t
      handle_rejection_tag [OF h1] handle_rejection_tag [OF h2] handle_rejection_tag [OF h3]
      handle_rejection_tag [OF h4] handle_rejection_tag [OF h5]
    by simp
qed

text \<open>
  C9, as the code has it. On a request that every configured scheme accepts, \<open>handle\<close>
  sets no status code and adds no tag: the context it leaves is the one it got, with the
  request as the validators called leave it. When a configured scheme rejects, the
  context it leaves differs from that by exactly one status code and one tag added at the
  end. When no configured validator writes to what it is handed, the request is left as it
  was, so the context of a pass is the one \<open>handle\<close> got.
\<close>

theorem handle_frame:
  "(list_all (\<lambda>p. snd p = None) (precedence v (Request ctx)) \<longrightarrow>
      fst (handle v ctx) = [] \<and>
      fst (snd (handle v ctx)) = ctx\<lparr>Request := request_after (schemes v) (Request ctx)\<rparr>) \<and>
   (\<not> list_all (\<lambda>p. snd p = None) (precedence v (Request ctx)) \<longrightarrow>
      fst (handle v ctx) = resultInvalid \<and>
      (\<exists>status tag. fst (snd (handle v ctx)) =
         ctx\<lparr>Request := request_after (schemes v) (Request ctx), StatusCode := status,
             Tags := Tags ctx @ [tag]\<rparr>)) \<and>
   (list_all (\<lambda>p. \<forall>r. snd (snd p r) = r) (schemes v) \<longrightarrow>
      request_after (schemes v) (Request ctx) = Request ctx)"
  using rejection_None [of "precedence v (Request ctx)"]
    request_after_unwritten [of "schemes v" "Request ctx"]
  by (auto simp: handle_Evaluate_spec Evaluate_spec_def resultInvalid_def
      precedence_def [symmetric] split: option.splits)

text \<open>
  C9 at a gate whose two schemes accept, the second one setting a header; at a gate whose
  second scheme rejects; and at a gate whose two schemes accept and write nothing.
\<close>

theorem handle_frame_witness:
  "list_all (\<lambda>p. snd p = None)
     (precedence (gate (Some accept) (Some (accept_and_set ''X-User'')) None None None)
        (Request ctx0)) \<and>
   handle (gate (Some accept) (Some (accept_and_set ''X-User'')) None None None) ctx0 =
     ([], ctx0\<lparr>Request := \<lparr>Header = [''X-User'', ''Accept''], Std = ''GET /''\<rparr>\<rparr>,
      [CallValidate SHeaders, CallValidate SJWT]) \<and>
   \<not> list_all (\<lambda>p. snd p = None)
     (precedence (gate (Some accept) (Some (reject ''expired'')) None None None) (Request ctx0)) \<and>
   fst (handle (gate (Some accept) (Some (reject ''expired'')) None None None) ctx0) = ''invalid'' \<and>
   fst (snd (handle (gate (Some accept) (Some (reject ''expired'')) None None None) ctx0)) =
     ctx0\<lparr>StatusCode := 401, Tags := [''JWT validator: expired'']\<rparr> \<and>
   list_all (\<lambda>p. \<forall>r. snd (snd p r) = r)
     (schemes (gate (Some accept) (Some accept) None None None)) \<and>
   handle (gate (Some accept) (Some accept) None None None) ctx0 =
     ([], ctx0, [CallValidate SHeaders, CallValidate SJWT])"
proof -
  have a: "list_all (\<lambda>p. snd p = None)
      (precedence (gate (Some accept) (Some (accept_and_set ''X-User'')) None None None)
         (Request ctx0))"
    by (simp add: gate_def precedence_def schemes_def on_Header_def accept_def
        accept_and_set_def)
  have r: "\<not> list_all (\<lambda>p. snd p = None)
      (precedence (gate (Some accept) (Some (reject ''expired'')) None None None) (Request ctx0))"
    by (simp add: gate_def precedence_def schemes_def on_Header_def accept_def reject_def)
  have u: "list_all (\<lambda>p. \<forall>r. snd (snd p r) = r)
      (schemes (gate (Some accept) (Some accept) None None None))"
    by (simp add: gate_def schemes_def on_Header_def accept_def)
  have b: "handle (gate (Some accept) (Some (accept_and_set ''X-User'')) None None None) ctx0 =
      ([], ctx0\<lparr>Request := \<lparr>Header = [''X-User'', ''Accept''], Std = ''GET /''\<rparr>\<rparr>,
       [CallValidate SHeaders, CallValidate SJWT])"
    using a
      handle_frame [of "gate (Some accept) (Some (accept_and_set ''X-User'')) None None None" ctx0]
    by (simp add: handle_def gate_def accept_def accept_and_set_def ctx0_def)
  have c: "handle (gate (Some accept) (Some accept) None None None) ctx0 =
      ([], ctx0, [CallValidate SHeaders, CallValidate SJWT])"
    using u handle_frame [of "gate (Some accept) (Some accept) None None None" ctx0]
    by (simp add: handle_def gate_def accept_def)
  have d: "fst (snd (handle (gate (Some accept) (Some (reject ''expired'')) None None None) ctx0)) =
      ctx0\<lparr>StatusCode := 401, Tags := [''JWT validator: expired'']\<rparr>"
    by (simp add: handle_def gate_def accept_def reject_def prepareErrorResponse_def Cat_def
        StatusUnauthorized_def ctx0_def)
  show ?thesis
    using a r u b c d
      handle_frame [of "gate (Some accept) (Some (reject ''expired'')) None None None" ctx0]
    by (simp add: resultInvalid_def)
qed

text \<open>
  C9 as stated fails: a basic-auth validator that accepts and sets a header of the request
  is the only scheme, every configured scheme accepts, and the context \<open>handle\<close> leaves is
  not the one it got.
\<close>

theorem handle_pass_changes_request:
  "list_all (\<lambda>p. snd p = None)
     (precedence (gate None None None None (Some (accept_and_set ''X-AUTH-USER'')))
        (Request ctx0)) \<and>
   fst (handle (gate None None None None (Some (accept_and_set ''X-AUTH-USER''))) ctx0) = [] \<and>
   fst (snd (handle (gate None None None None (Some (accept_and_set ''X-AUTH-USER''))) ctx0)) =
     ctx0\<lparr>Request := \<lparr>Header = [''X-AUTH-USER'', ''Accept''], Std = ''GET /''\<rparr>\<rparr> \<and>
   fst (snd (handle (gate None None None None (Some (accept_and_set ''X-AUTH-USER''))) ctx0)) \<noteq>
     ctx0"
  by (simp add: handle_def gate_def precedence_def schemes_def accept_and_set_def ctx0_def)

subsection \<open>Configuration: Spec.Validate and Init\<close>

lemma Validate_scheme_enabled:
  "Headers s \<noteq> None \<or> JWT s \<noteq> None \<or> Signature s \<noteq> None \<or> OAuth2 s \<noteq> None \<or>
   BasicAuth s \<noteq> None \<Longrightarrow> Validate z s = None"
  by (auto simp: Validate_def Spec_zero_def)

lemma Validate_named:
  "Name (BaseSpec s) \<noteq> [] \<Longrightarrow> Validate z s = None"
  by (auto simp: Validate_def Spec_zero_def)

lemma Validate_error_iff:
  "(Validate z s \<noteq> None) =
   (BaseSpec s = \<lparr>Name = [], Super = None, Other = z\<rparr> \<and> Headers s = None \<and> JWT s = None \<and>
    Signature s = None \<and> OAuth2 s = None \<and> BasicAuth s = None)"
  by (cases s) (auto simp: Validate_def Spec_zero_def)

text \<open>
  C2. \<open>Spec.Validate\<close> is to return an error for every spec with none of the five schemes.
  It compares the whole struct with \<open>Spec{}\<close>, the embedded \<open>BaseSpec\<close> included, so for a
  spec that has a name and no scheme it returns nil.
\<close>

theorem Validate_named_spec_without_schemes:
  "Headers (spec_named ''validator'' None None) = None \<and>
   JWT (spec_named ''validator'' None None) = None \<and>
   Signature (spec_named ''validator'' None None) = None \<and>
   OAuth2 (spec_named ''validator'' None None) = None \<and>
   BasicAuth (spec_named ''validator'' None None) = None \<and>
   Validate () (spec_named ''validator'' None None) = None"
  by (simp add: Validate_def Spec_zero_def spec_named_def)

text \<open>
  C8. A Validator made by \<open>CreateInstance\<close> and initialised from a spec whose five scheme
  fields are nil gets no scheme validator (\<open>Init\<close> returns, and calls no constructor), and
  for every request \<open>handle\<close> returns the empty result, leaves the context as it is and
  calls no validator.
\<close>

theorem Init_without_schemes_passes_all:
  "Headers s = None \<Longrightarrow> JWT s = None \<Longrightarrow> Signature s = None \<Longrightarrow> OAuth2 s = None \<Longrightarrow>
   BasicAuth s = None \<Longrightarrow>
   \<exists>v'. Init F CreateInstance s = Some (v', []) \<and> (\<forall>ctx. handle v' ctx = ([], ctx, []))"
  by (simp add: Init_def reload_def CreateInstance_def handle_def)

text \<open>C8 at a spec that has a name and no scheme.\<close>

theorem Init_without_schemes_passes_all_witness:
  "Headers (spec_named ''validator'' None None) = None \<and>
   JWT (spec_named ''validator'' None None) = None \<and>
   Signature (spec_named ''validator'' None None) = None \<and>
   OAuth2 (spec_named ''validator'' None None) = None \<and>
   BasicAuth (spec_named ''validator'' None None) = None \<and>
   (\<exists>v'. Init factories0 CreateInstance (spec_named ''validator'' None None) = Some (v', []) \<and>
     handle v' ctx0 = ([], ctx0, []))"
  using Init_without_schemes_passes_all [of "spec_named ''validator'' None None" factories0]
  by (auto simp: spec_named_def)

subsection \<open>Lifecycle: Close and Inherit\<close>

text \<open>
  C5, as the code has it. \<open>Inherit\<close> always returns a new generation. Its calls are, in
  this order: the \<open>Close\<close> of the previous generation's basic-auth validator, when it has
  one; then the constructors of the schemes of the new spec, in the order Headers, JWT,
  Signature, OAuth2, BasicAuth. The previous generation is released before the new one
  is constructed.
\<close>

theorem Inherit_closes_then_constructs:
  "\<exists>v'. Init F v s =
       Some (v', map CallNew (filter (enabled s) [SHeaders, SJWT, SSignature, SOAuth2, SBasicAuth])) \<and>
     Inherit F v s p = Some (v', p,
       (if basicAuth p = None then [] else [CallClose SBasicAuth]) @
       map CallNew (filter (enabled s) [SHeaders, SJWT, SSignature, SOAuth2, SBasicAuth]))"
  by (cases "Headers s"; cases "JWT s"; cases "Signature s"; cases "OAuth2 s"; cases "BasicAuth s")
     (simp_all add: Inherit_def Init_def reload_def Close_def)

text \<open>
  C5 as stated fails: with basic auth in the previous generation and in the new spec, the
  previous basic-auth validator is closed first and the new one is constructed after it.
\<close>

theorem Inherit_release_before_construct:
  "map_option (\<lambda>r. snd (snd r))
     (Inherit factories0 CreateInstance (spec_named ''validator'' None (Some ()))
        (gate None None None None (Some accept))) =
     Some [CallClose SBasicAuth, CallNew SBasicAuth] \<and>
   map_option (\<lambda>r. snd (snd r))
     (Inherit factories0 CreateInstance (spec_named ''validator'' None (Some ()))
        (gate None None None None (Some accept))) \<noteq>
     Some [CallNew SBasicAuth, CallClose SBasicAuth]"
  by (simp add: Inherit_def Init_def reload_def Close_def gate_def spec_named_def
      CreateInstance_def)

text \<open>
  C7, as the code has it. \<open>Close\<close> leaves every field of the Validator as it is, so the
  Validator after a second \<open>Close\<close> is the one after the first; and the second \<open>Close\<close>
  makes the calls the first made: none for a gate without basic auth, one more call of
  the basic-auth validator's \<open>Close\<close> for a gate with basic auth.
\<close>

theorem Close_twice:
  "fst (Close v) = v \<and> fst (Close (fst (Close v))) = fst (Close v) \<and>
   snd (Close (fst (Close v))) = snd (Close v) \<and>
   snd (Close v) = (if basicAuth v = None then [] else [CallClose SBasicAuth])"
  by (simp add: Close_def)

text \<open>
  C7 as stated fails: on a gate with basic auth the second \<open>Close\<close> is not a no-op, it
  calls the basic-auth validator's \<open>Close\<close> again.
\<close>

theorem Close_second_call_not_noop:
  "snd (Close (gate None None None None (Some accept))) = [CallClose SBasicAuth] \<and>
   snd (Close (fst (Close (gate None None None None (Some accept))))) = [CallClose SBasicAuth] \<and>
   snd (Close (fst (Close (gate None None None None (Some accept))))) \<noteq> []"
  by (simp add: Close_def gate_def)

text \<open>
  C10. \<open>Close\<close> leaves the headers, jwt, signer and oauth2 fields of the Validator as they
  are, the only call it ever makes is the basic-auth validator's \<open>Close\<close>, and for a gate
  without basic auth it does nothing.
\<close>

theorem Close_only_basicAuth:
  "headers (fst (Close v)) = headers v \<and> jwt (fst (Close v)) = jwt v \<and>
   signer (fst (Close v)) = signer v \<and> oauth2 (fst (Close v)) = oauth2 v \<and>
   set (snd (Close v)) \<subseteq> {CallClose SBasicAuth} \<and>
   (basicAuth v = None \<longrightarrow> Close v = (v, []))"
  by (simp add: Close_def)

text \<open>C10 at a gate with a headers validator and no basic auth.\<close>

theorem Close_only_basicAuth_witness:
  "basicAuth (gate (Some accept) None None None None) = None \<and>
   Close (gate (Some accept) None None None None) = (gate (Some accept) None None None None, [])"
  using Close_only_basicAuth [of "gate (Some accept) None None None None"]
  by (simp add: gate_def)

end
